theory Spec2Isabelle
  imports Main "HOL-Library.AList"
begin

section \<open>Datahub MCP server: a shallow embedding of main.py\<close>

text \<open>
  The program holds a bearer token, attaches it to an HTTP client and exposes two
  catalog queries. Everything outside the program (the token file, the HTTP backend,
  the server loop that runs between startup and shutdown) is a parameter of the model.
  Python strings are \<open>string\<close>s whose characters are the code points below 256.
  A raised exception is a value: computations return \<open>exn + 'a\<close> next to the updated
  state, and \<open>try\<close>/\<open>except\<close>/\<open>finally\<close> are functions on such computations.
  The exceptions of the model are the instances of Python's \<open>Exception\<close>, which is
  what every handler of the program (\<open>except Exception\<close>) catches; printing and
  logging are left out.
\<close>

subsection \<open>Python values\<close>

text \<open>
  What \<open>response.json()\<close> can return, and what the operations return. A float is kept
  as mantissa and binary exponent; the program never looks inside a number.
  A dict is an association list in insertion order.
\<close>

datatype json =
    JNull
  | JBool bool
  | JInt int
  | JFloat int int
  | JStr string
  | JArr "json list"
  | JObj "(string \<times> json) list"

text \<open>An exception: its class name and \<open>str(e)\<close>.\<close>

datatype exn = Exn (exn_class: string) (str_exn: string)

definition ValueError :: "string \<Rightarrow> exn" where
  "ValueError msg = Exn ''ValueError'' msg"

text \<open>\<open>{"error": msg}\<close>, the dict literal the program builds in three places.\<close>

definition error_dict :: "string \<Rightarrow> json" where
  "error_dict msg = JObj [(''error'', JStr msg)]"

text \<open>Truth value of an \<open>Optional[str]\<close>: \<open>None\<close> and \<open>""\<close> are false.\<close>

definition truthy :: "string option \<Rightarrow> bool" where
  "truthy t = (case t of None \<Rightarrow> False | Some s \<Rightarrow> s \<noteq> [])"

subsection \<open>String operations of Python used by the program\<close>

text \<open>\<open>str.isspace\<close> on one code point below 256.\<close>

definition isspace :: "char \<Rightarrow> bool" where
  "isspace c = ((of_char c :: nat) \<in> {9, 10, 11, 12, 13, 28, 29, 30, 31, 32, 133, 160})"

text \<open>\<open>str.strip()\<close>: drop leading and trailing whitespace.\<close>

definition strip :: "string \<Rightarrow> string" where
  "strip s = rev (dropWhile isspace (rev (dropWhile isspace s)))"

text \<open>\<open>str.lower()\<close> on code points below 256: A-Z and the Latin-1 capitals.\<close>

definition lower_char :: "char \<Rightarrow> char" where
  "lower_char c =
     (let n = (of_char c :: nat)
      in if (65 \<le> n \<and> n \<le> 90) \<or> (192 \<le> n \<and> n \<le> 222 \<and> n \<noteq> 215)
         then char_of (n + 32) else c)"

definition lower :: "string \<Rightarrow> string" where
  "lower s = map lower_char s"

text \<open>\<open>str(n)\<close> for a Python int, as the f-strings format it: decimal, \<open>-\<close> when negative.\<close>

definition digit_char :: "nat \<Rightarrow> char" where
  "digit_char d = ''0123456789'' ! (d mod 10)"

fun str_nat :: "nat \<Rightarrow> string" where
  "str_nat n = (if n < 10 then [digit_char n] else str_nat (n div 10) @ [digit_char (n mod 10)])"

declare str_nat.simps [simp del]

definition str_int :: "int \<Rightarrow> string" where
  "str_int i = (if i < 0 then CHR ''-'' # str_nat (nat (- i)) else str_nat (nat i))"

subsection \<open>The HTTP client and the backend\<close>

datatype verb = GET | POST | PUT | DELETE

text \<open>
  One call of \<open>client.get/post/put/delete\<close>, with the keyword arguments as the program
  passes them: \<open>None\<close> is an argument that was not passed (or passed as \<open>None\<close>).
\<close>

record client_call =
  call_verb :: verb
  call_url :: string
  call_json :: "json option"
  call_params :: "(string \<times> json) list option"
  call_headers :: "(string \<times> string) list option"

text \<open>
  A response: \<open>status_code\<close>, \<open>text\<close>, and what \<open>json()\<close> does on it (the parsed body,
  or the exception of the decoder).
\<close>

record response =
  status_code :: int
  resp_text :: string
  resp_json :: "exn + json"

text \<open>
  The backend decides what a call does, given the calls made before it: the client
  method raises (connection refused, timeout, ...) or returns a response.
\<close>

type_synonym backend = "client_call list \<Rightarrow> client_call \<Rightarrow> exn + response"

text \<open>
  \<open>httpx.AsyncClient\<close>: the headers the program has set on it (the library's own
  defaults carry no \<open>Authorization\<close> entry and are left out), whether \<open>aclose\<close> has run,
  and the log of the calls made on it, oldest first.
\<close>

record AsyncClient =
  client_base_url :: string
  timeout :: nat
  headers :: "(string \<times> string) list"
  is_closed :: bool
  calls :: "client_call list"

record DatahubContext =
  client :: AsyncClient
  base_url :: string
  access_token :: "string option"
  csrf_token :: "string option"

subsection \<open>Computations that may raise\<close>

type_synonym ('s, 'a) py = "'s \<Rightarrow> (exn + 'a) \<times> 's"

definition py_return :: "'a \<Rightarrow> ('s, 'a) py" where
  "py_return x s = (Inr x, s)"

definition py_raise :: "exn \<Rightarrow> ('s, 'a) py" where
  "py_raise e s = (Inl e, s)"

definition py_bind :: "('s, 'a) py \<Rightarrow> ('a \<Rightarrow> ('s, 'b) py) \<Rightarrow> ('s, 'b) py" where
  "py_bind m f s = (case m s of (Inl e, s') \<Rightarrow> (Inl e, s') | (Inr x, s') \<Rightarrow> f x s')"

text \<open>\<open>try: m  except Exception as e: h e\<close>\<close>

definition try_except :: "('s, 'a) py \<Rightarrow> (exn \<Rightarrow> ('s, 'a) py) \<Rightarrow> ('s, 'a) py" where
  "try_except m h s = (case m s of (Inl e, s') \<Rightarrow> h e s' | (Inr x, s') \<Rightarrow> (Inr x, s'))"


subsection \<open>Client methods\<close>

definition send :: "backend \<Rightarrow> client_call \<Rightarrow> (DatahubContext, response) py" where
  "send be c ctx =
     (be (calls (client ctx)) c,
      ctx\<lparr>client := (client ctx)\<lparr>calls := calls (client ctx) @ [c]\<rparr>\<rparr>)"

definition client_get ::
  "backend \<Rightarrow> string \<Rightarrow> (string \<times> json) list option \<Rightarrow> (DatahubContext, response) py" where
  "client_get be url params =
     send be \<lparr>call_verb = GET, call_url = url, call_json = None,
              call_params = params, call_headers = None\<rparr>"

definition client_post ::
  "backend \<Rightarrow> string \<Rightarrow> json option \<Rightarrow> (string \<times> json) list option \<Rightarrow>
   (string \<times> string) list \<Rightarrow> (DatahubContext, response) py" where
  "client_post be url js params hs =
     send be \<lparr>call_verb = POST, call_url = url, call_json = js,
              call_params = params, call_headers = Some hs\<rparr>"

definition client_put ::
  "backend \<Rightarrow> string \<Rightarrow> json option \<Rightarrow> (string \<times> string) list \<Rightarrow>
   (DatahubContext, response) py" where
  "client_put be url js hs =
     send be \<lparr>call_verb = PUT, call_url = url, call_json = js,
              call_params = None, call_headers = Some hs\<rparr>"

definition client_delete ::
  "backend \<Rightarrow> string \<Rightarrow> (string \<times> string) list \<Rightarrow> (DatahubContext, response) py" where
  "client_delete be url hs =
     send be \<lparr>call_verb = DELETE, call_url = url, call_json = None,
              call_params = None, call_headers = Some hs\<rparr>"


subsection \<open>Token store\<close>

text \<open>
  The file at \<open>ACCESS_TOKEN_STORE_PATH\<close>: it does not exist, or opening or reading it
  raises, or it is read.
\<close>

datatype token_file = NoFile | Unreadable exn | Contents string

text \<open>
  \<open>load_stored_token\<close>: the stripped contents when the path exists and is read; \<open>None\<close>
  when it does not exist and when the \<open>try\<close> catches an exception.
\<close>

definition load_stored_token :: "token_file \<Rightarrow> string option" where
  "load_stored_token tf =
     (case tf of
        NoFile \<Rightarrow> None
      | Unreadable e \<Rightarrow> None
      | Contents s \<Rightarrow> Some (strip s))"

subsection \<open>Lifespan\<close>

text \<open>\<open>ctx.access_token = None; client.headers.pop("Authorization", None)\<close>\<close>

definition drop_token :: "(DatahubContext, unit) py" where
  "drop_token ctx =
     (Inr (), ctx\<lparr>access_token := None,
                 client := (client ctx)\<lparr>headers :=
                   AList.delete ''Authorization'' (headers (client ctx))\<rparr>\<rparr>)"

text \<open>The \<open>try\<close> block that verifies the stored token, with its handler.\<close>

definition verify_token :: "backend \<Rightarrow> (DatahubContext, unit) py" where
  "verify_token be =
     try_except
       (py_bind (client_get be ''/v3/entity/dataset'' None)
          (\<lambda>response. if status_code response \<noteq> 200 then drop_token else py_return ()))
       (\<lambda>e. drop_token)"

text \<open>
  \<open>Datahub_lifespan\<close> up to its \<open>yield\<close>: the client and the context are created, the
  stored token is loaded and, when it is truthy, attached and verified. The result is
  the context that is yielded, or the exception that left the function before the
  \<open>try\<close>/\<open>finally\<close>.
\<close>

definition Datahub_lifespan_startup ::
  "string \<Rightarrow> token_file \<Rightarrow> backend \<Rightarrow> (exn + unit) \<times> DatahubContext" where
  "Datahub_lifespan_startup url tf be =
     (let client0 = \<lparr>client_base_url = url, timeout = 30, headers = [],
                      is_closed = False, calls = []\<rparr>;
          ctx = \<lparr>client = client0, base_url = url, access_token = None, csrf_token = None\<rparr>;
          stored_token = load_stored_token tf
      in if truthy stored_token
         then verify_token be
                (ctx\<lparr>access_token := stored_token,
                     client := client0\<lparr>headers :=
                       AList.update ''Authorization''
                         (''Bearer '' @ (case stored_token of Some t \<Rightarrow> t | None \<Rightarrow> ''None''))
                         (headers client0)\<rparr>\<rparr>)
         else (Inr (), ctx))"


subsection \<open>Decorators\<close>

text \<open>A Python function with its \<open>__name__\<close>; \<open>wraps\<close> gives a wrapper the name of what
  it wraps.\<close>

datatype 'a pyfunc = PyFunc (func_name: string) (call: "'a \<Rightarrow> (DatahubContext, json) py")

definition requires_auth :: "'a pyfunc \<Rightarrow> 'a pyfunc" where
  "requires_auth func =
     PyFunc (func_name func)
       (\<lambda>args ctx.
          if \<not> truthy (access_token ctx)
          then (Inr (error_dict ''Not authenticated. Please authenticate first.''), ctx)
          else call func args ctx)"

definition handle_api_errors :: "'a pyfunc \<Rightarrow> 'a pyfunc" where
  "handle_api_errors func =
     PyFunc (func_name func)
       (\<lambda>args.
          try_except (call func args)
            (\<lambda>e. py_return
               (error_dict (''Error in '' @ func_name func @ '': '' @ str_exn e))))"

subsection \<open>Request dispatcher\<close>

definition make_request ::
  "backend \<Rightarrow> string \<Rightarrow> string \<Rightarrow> json option \<Rightarrow> (string \<times> json) list option \<Rightarrow>
   (DatahubContext, response) py" where
  "make_request be method endpoint data params =
     (let hs = []
      in if lower method = ''get'' then client_get be endpoint params
         else if lower method = ''post'' then client_post be endpoint data params hs
         else if lower method = ''put'' then client_put be endpoint data hs
         else if lower method = ''delete'' then client_delete be endpoint hs
         else py_raise (ValueError (''Unsupported HTTP method: '' @ method)))"

definition make_api_request ::
  "backend \<Rightarrow> string \<Rightarrow> string \<Rightarrow> json option \<Rightarrow> (string \<times> json) list option \<Rightarrow>
   bool \<Rightarrow> (DatahubContext, json) py" where
  "make_api_request be method endpoint data params auto_refresh =
     py_bind (make_request be method endpoint data params)
       (\<lambda>response.
          if status_code response \<notin> set [200, 201]
          then py_return
                 (error_dict (''API request failed: '' @ str_int (status_code response)
                              @ '' - '' @ resp_text response))
          else (\<lambda>ctx. (resp_json response, ctx)))"

subsection \<open>Catalog operations\<close>

definition Datahub_dataset_list_body :: "backend \<Rightarrow> int pyfunc" where
  "Datahub_dataset_list_body be =
     PyFunc ''Datahub_dataset_list''
       (\<lambda>count.
          make_api_request be ''get''
            (''/v3/entity/dataset?systemMetadata=false&includeSoftDelete=false&skipCache=false&aspects=datasetKey&count=''
             @ str_int count @ ''&sortCriteria=urn&sortOrder=ASCENDING'')
            None None True)"

definition Datahub_dataset_list :: "backend \<Rightarrow> int pyfunc" where
  "Datahub_dataset_list be = requires_auth (handle_api_errors (Datahub_dataset_list_body be))"

definition Datahub_dataset_get_by_urn_body :: "backend \<Rightarrow> string pyfunc" where
  "Datahub_dataset_get_by_urn_body be =
     PyFunc ''Datahub_dataset_get_by_urn''
       (\<lambda>dashboard_urn.
          make_api_request be ''get'' (''/v3/entity/dataset/'' @ dashboard_urn) None None True)"

definition Datahub_dataset_get_by_urn :: "backend \<Rightarrow> string pyfunc" where
  "Datahub_dataset_get_by_urn be =
     requires_auth (handle_api_errors (Datahub_dataset_get_by_urn_body be))"

subsection \<open>Reading a URL\<close>

text \<open>
  The operations put their query string into the URL itself. To say what a URL asks
  for, it is split at the first \<open>?\<close>, the query at every \<open>&\<close>, and each field at
  its first \<open>=\<close>.
\<close>

fun split_on :: "char \<Rightarrow> string \<Rightarrow> string list" where
  "split_on d [] = [[]]"
| "split_on d (c # cs) =
     (if c = d then [] # split_on d cs
      else (case split_on d cs of
              [] \<Rightarrow> [[c]]
            | w # ws \<Rightarrow> (c # w) # ws))"

definition url_path :: "string \<Rightarrow> string" where
  "url_path url = takeWhile (\<lambda>c. c \<noteq> CHR ''?'') url"

definition key_value :: "string \<Rightarrow> string \<times> string" where
  "key_value kv =
     (takeWhile (\<lambda>c. c \<noteq> CHR ''='') kv, drop 1 (dropWhile (\<lambda>c. c \<noteq> CHR ''='') kv))"

definition query_params :: "string \<Rightarrow> (string \<times> string) list" where
  "query_params url =
     map key_value (split_on CHR ''&'' (drop 1 (dropWhile (\<lambda>c. c \<noteq> CHR ''?'') url)))"

text \<open>
  The request that the specification describes for listing \<open>count\<close> datasets: a GET of
  the dataset-search endpoint that asks for \<open>count\<close> results, sorted ascending by urn,
  without soft-deleted entities, and skipping the cache.
\<close>

definition list_request_as_specified :: "int \<Rightarrow> client_call \<Rightarrow> bool" where
  "list_request_as_specified count c =
     (call_verb c = GET \<and>
      url_path (call_url c) = ''/v3/entity/dataset'' \<and>
      map_of (query_params (call_url c)) ''count'' = Some (str_int count) \<and>
      map_of (query_params (call_url c)) ''sortCriteria'' = Some ''urn'' \<and>
      map_of (query_params (call_url c)) ''sortOrder'' = Some ''ASCENDING'' \<and>
      map_of (query_params (call_url c)) ''includeSoftDelete'' = Some ''false'' \<and>
      map_of (query_params (call_url c)) ''skipCache'' = Some ''true'')"

subsection \<open>Sample inputs\<close>


definition sample_client :: AsyncClient where
  "sample_client = \<lparr>client_base_url = ''http://localhost:8088'', timeout = 30,
                     headers = [], is_closed = False, calls = []\<rparr>"

definition ctx_no_token :: DatahubContext where
  "ctx_no_token = \<lparr>client = sample_client, base_url = ''http://localhost:8088'',
                    access_token = None, csrf_token = None\<rparr>"

definition ctx_with_token :: DatahubContext where
  "ctx_with_token =
     \<lparr>client = sample_client\<lparr>headers := [(''Authorization'', ''Bearer abc'')]\<rparr>,
      base_url = ''http://localhost:8088'', access_token = Some ''abc'', csrf_token = None\<rparr>"

text \<open>A backend that answers every call with the same response.\<close>

definition backend_const :: "int \<Rightarrow> string \<Rightarrow> exn + json \<Rightarrow> backend" where
  "backend_const st txt js hist c = Inr \<lparr>status_code = st, resp_text = txt, resp_json = js\<rparr>"

text \<open>A backend that cannot be reached.\<close>

definition backend_down :: backend where
  "backend_down hist c = Inl (Exn ''ConnectError'' ''All connection attempts failed'')"

section \<open>Properties\<close>

subsection \<open>Evaluation lemmas\<close>

lemma lower_get: "lower ''get'' = ''get''"
  by code_simp

lemma lower_verbs:
  "lower ''post'' = ''post''" "lower ''put'' = ''put''" "lower ''delete'' = ''delete''"
  by code_simp+

lemma str_int_small: "str_int 5 = ''5''" "str_int 401 = ''401''"
  by code_simp+

lemma list_url_5:
  "''/v3/entity/dataset?systemMetadata=false&includeSoftDelete=false&skipCache=false&aspects=datasetKey&count=''
     @ str_int 5 @ ''&sortCriteria=urn&sortOrder=ASCENDING'' =
   ''/v3/entity/dataset?systemMetadata=false&includeSoftDelete=false&skipCache=false&aspects=datasetKey&count=5&sortCriteria=urn&sortOrder=ASCENDING''"
  by (simp add: str_int_small)

lemma make_api_request_get:
  "make_api_request be ''get'' ep d p ar ctx =
     (case be (calls (client ctx)) \<lparr>call_verb = GET, call_url = ep, call_json = None, call_params = p, call_headers = None\<rparr> of
        Inl e \<Rightarrow> (Inl e, ctx\<lparr>client := (client ctx)\<lparr>calls := calls (client ctx) @ [\<lparr>call_verb = GET, call_url = ep, call_json = None, call_params = p, call_headers = None\<rparr>]\<rparr>\<rparr>)
      | Inr r \<Rightarrow> (if status_code r \<noteq> 200 \<and> status_code r \<noteq> 201
                 then Inr (error_dict (''API request failed: '' @ str_int (status_code r) @ '' - '' @ resp_text r))
                 else resp_json r,
                 ctx\<lparr>client := (client ctx)\<lparr>calls := calls (client ctx) @ [\<lparr>call_verb = GET, call_url = ep, call_json = None, call_params = p, call_headers = None\<rparr>]\<rparr>\<rparr>))"
  by (simp add: make_api_request_def make_request_def lower_get py_bind_def client_get_def send_def py_return_def split: sum.splits)

lemma requires_auth_none:
  "\<not> truthy (access_token ctx) \<Longrightarrow> call (requires_auth f) a ctx = (Inr (error_dict ''Not authenticated. Please authenticate first.''), ctx)"
  by (simp add: requires_auth_def)

lemma requires_auth_some:
  "truthy (access_token ctx) \<Longrightarrow> call (requires_auth f) a ctx = call f a ctx"
  by (simp add: requires_auth_def)

lemma handle_api_errors_call:
  "call (handle_api_errors f) a ctx =
     (case call f a ctx of
        (Inl e, ctx') \<Rightarrow> (Inr (error_dict (''Error in '' @ func_name f @ '': '' @ str_exn e)), ctx')
      | (Inr x, ctx') \<Rightarrow> (Inr x, ctx'))"
  by (simp add: handle_api_errors_def try_except_def py_return_def split: prod.splits sum.splits)

subsection \<open>Auth gate\<close>

text \<open>
  C1. For both catalog operations and every argument: when the context's access token
  is absent, the operation returns exactly
  \<open>{"error": "Not authenticated. Please authenticate first."}\<close>, the context is as it
  was, and no call has been made on the HTTP client.
\<close>

theorem not_authenticated:
  assumes "access_token ctx = None"
  shows "call (Datahub_dataset_list be) count ctx =
           (Inr (JObj [(''error'', JStr ''Not authenticated. Please authenticate first.'')]), ctx)
       \<and> call (Datahub_dataset_get_by_urn be) urn ctx =
           (Inr (JObj [(''error'', JStr ''Not authenticated. Please authenticate first.'')]), ctx)
       \<and> calls (client (snd (call (Datahub_dataset_list be) count ctx))) = calls (client ctx)
       \<and> calls (client (snd (call (Datahub_dataset_get_by_urn be) urn ctx))) = calls (client ctx)"
  using assms
  by (simp add: Datahub_dataset_list_def Datahub_dataset_get_by_urn_def requires_auth_none
        truthy_def error_dict_def)

theorem not_authenticated_witness:
  "access_token ctx_no_token = None
   \<and> call (Datahub_dataset_list (backend_const 200 ''[]'' (Inr (JArr [])))) 5 ctx_no_token =
       (Inr (JObj [(''error'', JStr ''Not authenticated. Please authenticate first.'')]), ctx_no_token)
   \<and> call (Datahub_dataset_get_by_urn (backend_const 200 ''[]'' (Inr (JArr [])))) ''urn:li:dataset:1'' ctx_no_token =
       (Inr (JObj [(''error'', JStr ''Not authenticated. Please authenticate first.'')]), ctx_no_token)
   \<and> calls (client (snd (call (Datahub_dataset_list (backend_const 200 ''[]'' (Inr (JArr [])))) 5 ctx_no_token))) = []"
  using not_authenticated [of ctx_no_token "backend_const 200 ''[]'' (Inr (JArr []))" 5 "''urn:li:dataset:1''"]
  by (simp add: ctx_no_token_def sample_client_def)

subsection \<open>Error normalizer\<close>

lemma body_list_call:
  "call (Datahub_dataset_list_body be) count = make_api_request be ''get''
     (''/v3/entity/dataset?systemMetadata=false&includeSoftDelete=false&skipCache=false&aspects=datasetKey&count=''
             @ str_int count @ ''&sortCriteria=urn&sortOrder=ASCENDING'') None None True"
  by (simp add: Datahub_dataset_list_body_def)

lemma handle_api_errors_never_raises:
  "fst (call (handle_api_errors f) a ctx) \<noteq> Inl e"
  by (simp add: handle_api_errors_call split: prod.splits sum.splits)

lemma requires_auth_handle_never_raises:
  "fst (call (requires_auth (handle_api_errors f)) a ctx) \<noteq> Inl e"
  by (cases "truthy (access_token ctx)")
     (simp_all add: requires_auth_none requires_auth_some handle_api_errors_never_raises)

lemma requires_auth_handle_raise:
  "truthy (access_token ctx) \<Longrightarrow> call f a ctx = (Inl e, ctx') \<Longrightarrow>
   call (requires_auth (handle_api_errors f)) a ctx =
     (Inr (JObj [(''error'', JStr (''Error in '' @ func_name f @ '': '' @ str_exn e))]), ctx')"
  by (simp add: requires_auth_some handle_api_errors_call error_dict_def)

text \<open>
  C2. For both catalog operations, run with a token in the context: when the decorated
  function body raises \<open>e\<close>, the operation returns exactly
  \<open>{"error": "Error in <name>: <str(e)>"}\<close> with the name of that operation, in the
  state the body left. Whatever the context and the backend, neither operation raises.
\<close>

theorem body_raises_error_dict:
  assumes "truthy (access_token ctx)"
  shows "(call (Datahub_dataset_list_body be) count ctx = (Inl e, ctx') \<longrightarrow>
            call (Datahub_dataset_list be) count ctx =
              (Inr (JObj [(''error'', JStr (''Error in Datahub_dataset_list: '' @ str_exn e))]), ctx'))
       \<and> (call (Datahub_dataset_get_by_urn_body be) urn ctx = (Inl e, ctx') \<longrightarrow>
            call (Datahub_dataset_get_by_urn be) urn ctx =
              (Inr (JObj [(''error'', JStr (''Error in Datahub_dataset_get_by_urn: '' @ str_exn e))]), ctx'))
       \<and> fst (call (Datahub_dataset_list be) count ctx) \<noteq> Inl e'
       \<and> fst (call (Datahub_dataset_get_by_urn be) urn ctx) \<noteq> Inl e'"
proof -
  have n1: "func_name (Datahub_dataset_list_body be) = ''Datahub_dataset_list''"
    by (simp add: Datahub_dataset_list_body_def)
  have n2: "func_name (Datahub_dataset_get_by_urn_body be) = ''Datahub_dataset_get_by_urn''"
    by (simp add: Datahub_dataset_get_by_urn_body_def)
  have a: "call (Datahub_dataset_list_body be) count ctx = (Inl e, ctx') \<longrightarrow>
            call (Datahub_dataset_list be) count ctx =
              (Inr (JObj [(''error'', JStr (''Error in Datahub_dataset_list: '' @ str_exn e))]), ctx')"
    using requires_auth_handle_raise [OF assms, of "Datahub_dataset_list_body be" count e ctx'] n1
    by (simp add: Datahub_dataset_list_def)
  have b: "call (Datahub_dataset_get_by_urn_body be) urn ctx = (Inl e, ctx') \<longrightarrow>
            call (Datahub_dataset_get_by_urn be) urn ctx =
              (Inr (JObj [(''error'', JStr (''Error in Datahub_dataset_get_by_urn: '' @ str_exn e))]), ctx')"
    using requires_auth_handle_raise [OF assms, of "Datahub_dataset_get_by_urn_body be" urn e ctx'] n2
    by (simp add: Datahub_dataset_get_by_urn_def)
  have c: "fst (call (Datahub_dataset_list be) count ctx) \<noteq> Inl e'"
    by (simp add: Datahub_dataset_list_def requires_auth_handle_never_raises)
  have d: "fst (call (Datahub_dataset_get_by_urn be) urn ctx) \<noteq> Inl e'"
    by (simp add: Datahub_dataset_get_by_urn_def requires_auth_handle_never_raises)
  from a b c d show ?thesis by blast
qed

lemma body_list_down:
  "call (Datahub_dataset_list_body backend_down) 5 ctx_with_token =
     (Inl (Exn ''ConnectError'' ''All connection attempts failed''),
      ctx_with_token\<lparr>client := (client ctx_with_token)\<lparr>calls :=
         [\<lparr>call_verb = GET,
           call_url = ''/v3/entity/dataset?systemMetadata=false&includeSoftDelete=false&skipCache=false&aspects=datasetKey&count=5&sortCriteria=urn&sortOrder=ASCENDING'',
           call_json = None, call_params = None, call_headers = None\<rparr>]\<rparr>\<rparr>)"
  unfolding body_list_call list_url_5
  by (simp add: make_api_request_get backend_down_def ctx_with_token_def sample_client_def)

lemma body_urn_down:
  "call (Datahub_dataset_get_by_urn_body backend_down) ''x'' ctx_with_token =
     (Inl (Exn ''ConnectError'' ''All connection attempts failed''),
      ctx_with_token\<lparr>client := (client ctx_with_token)\<lparr>calls :=
         [\<lparr>call_verb = GET, call_url = ''/v3/entity/dataset/x'', call_json = None,
           call_params = None, call_headers = None\<rparr>]\<rparr>\<rparr>)"
  by (simp add: Datahub_dataset_get_by_urn_body_def make_api_request_get backend_down_def
        ctx_with_token_def sample_client_def)

theorem body_raises_error_dict_witness:
  "truthy (access_token ctx_with_token)
   \<and> call (Datahub_dataset_list_body backend_down) 5 ctx_with_token =
     (Inl (Exn ''ConnectError'' ''All connection attempts failed''),
      ctx_with_token\<lparr>client := (client ctx_with_token)\<lparr>calls :=
         [\<lparr>call_verb = GET,
           call_url = ''/v3/entity/dataset?systemMetadata=false&includeSoftDelete=false&skipCache=false&aspects=datasetKey&count=5&sortCriteria=urn&sortOrder=ASCENDING'',
           call_json = None, call_params = None, call_headers = None\<rparr>]\<rparr>\<rparr>)
   \<and> call (Datahub_dataset_list backend_down) 5 ctx_with_token =
     (Inr (JObj [(''error'', JStr ''Error in Datahub_dataset_list: All connection attempts failed'')]),
      ctx_with_token\<lparr>client := (client ctx_with_token)\<lparr>calls :=
         [\<lparr>call_verb = GET,
           call_url = ''/v3/entity/dataset?systemMetadata=false&includeSoftDelete=false&skipCache=false&aspects=datasetKey&count=5&sortCriteria=urn&sortOrder=ASCENDING'',
           call_json = None, call_params = None, call_headers = None\<rparr>]\<rparr>\<rparr>)
   \<and> call (Datahub_dataset_get_by_urn_body backend_down) ''x'' ctx_with_token =
     (Inl (Exn ''ConnectError'' ''All connection attempts failed''),
      ctx_with_token\<lparr>client := (client ctx_with_token)\<lparr>calls :=
         [\<lparr>call_verb = GET, call_url = ''/v3/entity/dataset/x'', call_json = None,
           call_params = None, call_headers = None\<rparr>]\<rparr>\<rparr>)
   \<and> call (Datahub_dataset_get_by_urn backend_down) ''x'' ctx_with_token =
     (Inr (JObj [(''error'', JStr ''Error in Datahub_dataset_get_by_urn: All connection attempts failed'')]),
      ctx_with_token\<lparr>client := (client ctx_with_token)\<lparr>calls :=
         [\<lparr>call_verb = GET, call_url = ''/v3/entity/dataset/x'', call_json = None,
           call_params = None, call_headers = None\<rparr>]\<rparr>\<rparr>)"
proof -
  have t: "truthy (access_token ctx_with_token)"
    by (simp add: ctx_with_token_def truthy_def)
  show ?thesis
    using t body_list_down body_urn_down
      body_raises_error_dict [OF t, where be = backend_down and count = 5
        and e = "Exn ''ConnectError'' ''All connection attempts failed''"
        and ctx' = "ctx_with_token\<lparr>client := (client ctx_with_token)\<lparr>calls :=
         [\<lparr>call_verb = GET,
           call_url = ''/v3/entity/dataset?systemMetadata=false&includeSoftDelete=false&skipCache=false&aspects=datasetKey&count=5&sortCriteria=urn&sortOrder=ASCENDING'',
           call_json = None, call_params = None, call_headers = None\<rparr>]\<rparr>\<rparr>"]
      body_raises_error_dict [OF t, where be = backend_down and urn = "''x''"
        and e = "Exn ''ConnectError'' ''All connection attempts failed''"
        and ctx' = "ctx_with_token\<lparr>client := (client ctx_with_token)\<lparr>calls :=
         [\<lparr>call_verb = GET, call_url = ''/v3/entity/dataset/x'', call_json = None,
           call_params = None, call_headers = None\<rparr>]\<rparr>\<rparr>"]
    by simp
qed

subsection \<open>Request dispatcher\<close>

lemma make_request_appends:
  "make_request be method endpoint data params ctx = (Inr response, ctx') \<Longrightarrow>
   \<exists>c. ctx' = ctx\<lparr>client := (client ctx)\<lparr>calls := calls (client ctx) @ [c]\<rparr>\<rparr>"
  by (auto simp add: make_request_def client_get_def client_post_def client_put_def
        client_delete_def send_def py_raise_def split: if_splits)

text \<open>
  C3. When the request of \<open>make_api_request\<close> gets a response whose status is neither
  200 nor 201 (401 among them), the function returns exactly
  \<open>{"error": "API request failed: <status> - <text>"}\<close> in the state right after that
  request: one call has been made on the client and none follows.
\<close>

theorem failed_status_error_dict:
  assumes "make_request be method endpoint data params ctx = (Inr response, ctx')"
      and "status_code response \<noteq> 200" and "status_code response \<noteq> 201"
  shows "make_api_request be method endpoint data params auto_refresh ctx =
           (Inr (JObj [(''error'', JStr (''API request failed: '' @ str_int (status_code response)
                                        @ '' - '' @ resp_text response))]), ctx')
       \<and> butlast (calls (client ctx')) = calls (client ctx)
       \<and> length (calls (client ctx')) = Suc (length (calls (client ctx)))"
proof -
  have r: "make_api_request be method endpoint data params auto_refresh ctx =
           (Inr (JObj [(''error'', JStr (''API request failed: '' @ str_int (status_code response)
                                        @ '' - '' @ resp_text response))]), ctx')"
    using assms by (simp add: make_api_request_def py_bind_def py_return_def error_dict_def)
  from make_request_appends [OF assms(1)]
  have n: "butlast (calls (client ctx')) = calls (client ctx)
       \<and> length (calls (client ctx')) = Suc (length (calls (client ctx)))"
    by auto
  from r n show ?thesis by simp
qed

lemma make_request_get:
  "make_request be ''get'' ep d p ctx =
     (be (calls (client ctx)) \<lparr>call_verb = GET, call_url = ep, call_json = None, call_params = p, call_headers = None\<rparr>,
      ctx\<lparr>client := (client ctx)\<lparr>calls := calls (client ctx) @ [\<lparr>call_verb = GET, call_url = ep, call_json = None, call_params = p, call_headers = None\<rparr>]\<rparr>\<rparr>)"
  by (simp add: make_request_def lower_get client_get_def send_def)

theorem failed_status_error_dict_witness:
  "make_request (backend_const 401 ''Unauthorized'' (Inr JNull)) ''get'' ''/v3/entity/dataset/x'' None None ctx_with_token =
     (Inr \<lparr>status_code = 401, resp_text = ''Unauthorized'', resp_json = Inr JNull\<rparr>,
      ctx_with_token\<lparr>client := (client ctx_with_token)\<lparr>calls :=
         [\<lparr>call_verb = GET, call_url = ''/v3/entity/dataset/x'', call_json = None,
           call_params = None, call_headers = None\<rparr>]\<rparr>\<rparr>)
   \<and> make_api_request (backend_const 401 ''Unauthorized'' (Inr JNull)) ''get'' ''/v3/entity/dataset/x'' None None True ctx_with_token =
     (Inr (JObj [(''error'', JStr ''API request failed: 401 - Unauthorized'')]),
      ctx_with_token\<lparr>client := (client ctx_with_token)\<lparr>calls :=
         [\<lparr>call_verb = GET, call_url = ''/v3/entity/dataset/x'', call_json = None,
           call_params = None, call_headers = None\<rparr>]\<rparr>\<rparr>)"
proof -
  have m: "make_request (backend_const 401 ''Unauthorized'' (Inr JNull)) ''get'' ''/v3/entity/dataset/x'' None None ctx_with_token =
     (Inr \<lparr>status_code = 401, resp_text = ''Unauthorized'', resp_json = Inr JNull\<rparr>,
      ctx_with_token\<lparr>client := (client ctx_with_token)\<lparr>calls :=
         [\<lparr>call_verb = GET, call_url = ''/v3/entity/dataset/x'', call_json = None,
           call_params = None, call_headers = None\<rparr>]\<rparr>\<rparr>)"
    by (simp add: make_request_get backend_const_def ctx_with_token_def sample_client_def)
  show ?thesis
    using m failed_status_error_dict [OF m, of True]
    by (simp add: str_int_small)
qed

text \<open>
  C4. When the request of \<open>make_api_request\<close> gets a response with status 200 or 201
  whose body parses to \<open>v\<close>, the function returns \<open>v\<close> unchanged.
\<close>

theorem success_returns_body:
  assumes "make_request be method endpoint data params ctx = (Inr response, ctx')"
      and "status_code response = 200 \<or> status_code response = 201"
      and "resp_json response = Inr v"
  shows "make_api_request be method endpoint data params auto_refresh ctx = (Inr v, ctx')"
  using assms by (auto simp add: make_api_request_def py_bind_def)

theorem success_returns_body_witness:
  "make_request (backend_const 200 ''[1, null]'' (Inr (JArr [JInt 1, JNull])))
      ''get'' ''/v3/entity/dataset/x'' None None ctx_with_token =
     (Inr \<lparr>status_code = 200, resp_text = ''[1, null]'',
           resp_json = Inr (JArr [JInt 1, JNull])\<rparr>,
      ctx_with_token\<lparr>client := (client ctx_with_token)\<lparr>calls :=
         [\<lparr>call_verb = GET, call_url = ''/v3/entity/dataset/x'', call_json = None,
           call_params = None, call_headers = None\<rparr>]\<rparr>\<rparr>)
   \<and> make_api_request (backend_const 200 ''[1, null]'' (Inr (JArr [JInt 1, JNull])))
      ''get'' ''/v3/entity/dataset/x'' None None True ctx_with_token =
     (Inr (JArr [JInt 1, JNull]),
      ctx_with_token\<lparr>client := (client ctx_with_token)\<lparr>calls :=
         [\<lparr>call_verb = GET, call_url = ''/v3/entity/dataset/x'', call_json = None,
           call_params = None, call_headers = None\<rparr>]\<rparr>\<rparr>)"
proof -
  have m: "make_request (backend_const 200 ''[1, null]'' (Inr (JArr [JInt 1, JNull])))
      ''get'' ''/v3/entity/dataset/x'' None None ctx_with_token =
     (Inr \<lparr>status_code = 200, resp_text = ''[1, null]'',
           resp_json = Inr (JArr [JInt 1, JNull])\<rparr>,
      ctx_with_token\<lparr>client := (client ctx_with_token)\<lparr>calls :=
         [\<lparr>call_verb = GET, call_url = ''/v3/entity/dataset/x'', call_json = None,
           call_params = None, call_headers = None\<rparr>]\<rparr>\<rparr>)"
    by (simp add: make_request_get backend_const_def ctx_with_token_def sample_client_def)
  show ?thesis
    using m success_returns_body [OF m, of "JArr [JInt 1, JNull]" True]
    by simp
qed

text \<open>
  C5. What \<open>make_api_request\<close> hands to the client for each verb when query parameters
  \<open>ps\<close> are given: \<open>get\<close> and \<open>post\<close> pass them on, \<open>put\<close> and \<open>delete\<close> make their
  call without them.
\<close>

theorem params_by_verb:
  "snd (make_request be ''get'' ep data (Some ps) ctx) =
     ctx\<lparr>client := (client ctx)\<lparr>calls := calls (client ctx) @
       [\<lparr>call_verb = GET, call_url = ep, call_json = None,
         call_params = Some ps, call_headers = None\<rparr>]\<rparr>\<rparr>
   \<and> snd (make_request be ''post'' ep data (Some ps) ctx) =
     ctx\<lparr>client := (client ctx)\<lparr>calls := calls (client ctx) @
       [\<lparr>call_verb = POST, call_url = ep, call_json = data,
         call_params = Some ps, call_headers = Some []\<rparr>]\<rparr>\<rparr>
   \<and> snd (make_request be ''put'' ep data (Some ps) ctx) =
     ctx\<lparr>client := (client ctx)\<lparr>calls := calls (client ctx) @
       [\<lparr>call_verb = PUT, call_url = ep, call_json = data,
         call_params = None, call_headers = Some []\<rparr>]\<rparr>\<rparr>
   \<and> snd (make_request be ''delete'' ep data (Some ps) ctx) =
     ctx\<lparr>client := (client ctx)\<lparr>calls := calls (client ctx) @
       [\<lparr>call_verb = DELETE, call_url = ep, call_json = None,
         call_params = None, call_headers = Some []\<rparr>]\<rparr>\<rparr>"
  by (simp add: make_request_def lower_get lower_verbs client_get_def client_post_def
        client_put_def client_delete_def send_def)

subsection \<open>Listing datasets\<close>

lemma split_on_append: "d \<notin> set xs \<Longrightarrow> split_on d (xs @ d # ys) = xs # split_on d ys"
  by (induction xs) auto

lemma digit_char_cases: "digit_char d \<in> set ''0123456789''"
  unfolding digit_char_def by (rule nth_mem) simp

lemma str_nat_chars: "set (str_nat n) \<subseteq> set ''0123456789''"
proof (induction n rule: str_nat.induct)
  case (1 n)
  show ?case
  proof (cases "n < 10")
    case True
    have "str_nat n = [digit_char n]" using True by (subst str_nat.simps) simp
    then show ?thesis using digit_char_cases [of n] by simp
  next
    case False
    have "str_nat n = str_nat (n div 10) @ [digit_char (n mod 10)]"
      using False by (subst str_nat.simps) simp
    then show ?thesis
      using "1.IH" [OF False] digit_char_cases [of "n mod 10"] by simp
  qed
qed



lemma str_nat_avoids: "c \<notin> set ''0123456789'' \<Longrightarrow> c \<notin> set (str_nat n)"
  using str_nat_chars [of n] by (rule contra_subsetD)

lemma str_int_avoids:
  assumes "c \<notin> set ''0123456789''" and "c \<noteq> CHR ''-''"
  shows "c \<notin> set (str_int i)"
proof (cases "i < 0")
  case True
  then have "str_int i = CHR ''-'' # str_nat (nat (- i))" by (simp add: str_int_def)
  then show ?thesis using str_nat_avoids [OF assms(1), of "nat (- i)"] assms(2) by simp
next
  case False
  then have "str_int i = str_nat (nat i)" by (simp add: str_int_def)
  then show ?thesis using str_nat_avoids [OF assms(1), of "nat i"] by simp
qed

lemma str_int_no_amp: "CHR ''&'' \<notin> set (str_int i)"
  by (rule str_int_avoids) simp_all

lemma url_path_list: "url_path (''/v3/entity/dataset?systemMetadata=false&includeSoftDelete=false&skipCache=false&aspects=datasetKey&count=''
        @ str_int count @ ''&sortCriteria=urn&sortOrder=ASCENDING'') = ''/v3/entity/dataset''"
  by (simp add: url_path_def)

lemma split_count:
  "split_on CHR ''&'' (''count='' @ str_int count @ ''&sortCriteria=urn&sortOrder=ASCENDING'')
   = (''count='' @ str_int count) # [''sortCriteria=urn'', ''sortOrder=ASCENDING'']"
proof -
  have "CHR ''&'' \<notin> set (''count='' @ str_int count)" using str_int_no_amp by simp
  from split_on_append [OF this, of "''sortCriteria=urn&sortOrder=ASCENDING''"]
  show ?thesis by simp
qed

lemma split_query:
  "split_on CHR ''&'' (''systemMetadata=false&includeSoftDelete=false&skipCache=false&aspects=datasetKey&count=''
             @ str_int count @ ''&sortCriteria=urn&sortOrder=ASCENDING'')
   = [''systemMetadata=false'', ''includeSoftDelete=false'', ''skipCache=false'', ''aspects=datasetKey'',
      ''count='' @ str_int count, ''sortCriteria=urn'', ''sortOrder=ASCENDING'']"
proof -
  have a: "split_on CHR ''&'' (''aspects=datasetKey'' @ CHR ''&'' # (''count='' @ str_int count @ ''&sortCriteria=urn&sortOrder=ASCENDING''))
     = ''aspects=datasetKey'' # split_on CHR ''&'' (''count='' @ str_int count @ ''&sortCriteria=urn&sortOrder=ASCENDING'')"
    by (rule split_on_append) simp
  have b: "split_on CHR ''&'' (''skipCache=false'' @ CHR ''&'' # (''aspects=datasetKey'' @ CHR ''&'' # (''count='' @ str_int count @ ''&sortCriteria=urn&sortOrder=ASCENDING'')))
     = ''skipCache=false'' # split_on CHR ''&'' (''aspects=datasetKey'' @ CHR ''&'' # (''count='' @ str_int count @ ''&sortCriteria=urn&sortOrder=ASCENDING''))"
    by (rule split_on_append) simp
  have c: "split_on CHR ''&'' (''includeSoftDelete=false'' @ CHR ''&'' # (''skipCache=false'' @ CHR ''&'' # (''aspects=datasetKey'' @ CHR ''&'' # (''count='' @ str_int count @ ''&sortCriteria=urn&sortOrder=ASCENDING''))))
     = ''includeSoftDelete=false'' # split_on CHR ''&'' (''skipCache=false'' @ CHR ''&'' # (''aspects=datasetKey'' @ CHR ''&'' # (''count='' @ str_int count @ ''&sortCriteria=urn&sortOrder=ASCENDING'')))"
    by (rule split_on_append) simp
  have d: "split_on CHR ''&'' (''systemMetadata=false'' @ CHR ''&'' # (''includeSoftDelete=false'' @ CHR ''&'' # (''skipCache=false'' @ CHR ''&'' # (''aspects=datasetKey'' @ CHR ''&'' # (''count='' @ str_int count @ ''&sortCriteria=urn&sortOrder=ASCENDING'')))))
     = ''systemMetadata=false'' # split_on CHR ''&'' (''includeSoftDelete=false'' @ CHR ''&'' # (''skipCache=false'' @ CHR ''&'' # (''aspects=datasetKey'' @ CHR ''&'' # (''count='' @ str_int count @ ''&sortCriteria=urn&sortOrder=ASCENDING''))))"
    by (rule split_on_append) simp
  have e: "''systemMetadata=false&includeSoftDelete=false&skipCache=false&aspects=datasetKey&count=''
             @ str_int count @ ''&sortCriteria=urn&sortOrder=ASCENDING''
     = ''systemMetadata=false'' @ CHR ''&'' # (''includeSoftDelete=false'' @ CHR ''&'' # (''skipCache=false'' @ CHR ''&'' # (''aspects=datasetKey'' @ CHR ''&'' # (''count='' @ str_int count @ ''&sortCriteria=urn&sortOrder=ASCENDING''))))"
    by simp
  show ?thesis
    unfolding e d c b a split_count by simp
qed

lemma key_value_count: "key_value (''count='' @ str_int count) = (''count'', str_int count)"
  by (simp add: key_value_def)

lemma query_params_list:
  "query_params (''/v3/entity/dataset?systemMetadata=false&includeSoftDelete=false&skipCache=false&aspects=datasetKey&count=''
        @ str_int count @ ''&sortCriteria=urn&sortOrder=ASCENDING'') =
     [(''systemMetadata'', ''false''), (''includeSoftDelete'', ''false''), (''skipCache'', ''false''),
      (''aspects'', ''datasetKey''), (''count'', str_int count), (''sortCriteria'', ''urn''),
      (''sortOrder'', ''ASCENDING'')]"
proof -
  have q: "drop 1 (dropWhile (\<lambda>c. c \<noteq> CHR ''?'') (''/v3/entity/dataset?systemMetadata=false&includeSoftDelete=false&skipCache=false&aspects=datasetKey&count=''
        @ str_int count @ ''&sortCriteria=urn&sortOrder=ASCENDING'')) =
     ''systemMetadata=false&includeSoftDelete=false&skipCache=false&aspects=datasetKey&count=''
             @ str_int count @ ''&sortCriteria=urn&sortOrder=ASCENDING''"
    by simp
  have k: "map key_value [''systemMetadata=false'', ''includeSoftDelete=false'', ''skipCache=false'', ''aspects=datasetKey'',
      ''count='' @ str_int count, ''sortCriteria=urn'', ''sortOrder=ASCENDING''] =
     [(''systemMetadata'', ''false''), (''includeSoftDelete'', ''false''), (''skipCache'', ''false''),
      (''aspects'', ''datasetKey''), (''count'', str_int count), (''sortCriteria'', ''urn''),
      (''sortOrder'', ''ASCENDING'')]"
    using key_value_count [of count] by (simp add: key_value_def)
  show ?thesis
    unfolding query_params_def q split_query k ..
qed

lemma handle_api_errors_state:
  "snd (call (handle_api_errors f) a ctx) = snd (call f a ctx)"
  by (simp add: handle_api_errors_call split: prod.splits sum.splits)

lemma make_api_request_get_state:
  "snd (make_api_request be ''get'' ep d p ar ctx) =
     ctx\<lparr>client := (client ctx)\<lparr>calls := calls (client ctx) @
       [\<lparr>call_verb = GET, call_url = ep, call_json = None, call_params = p,
         call_headers = None\<rparr>]\<rparr>\<rparr>"
  by (simp add: make_api_request_get split: sum.splits)

lemma list_body_state:
  "snd (call (Datahub_dataset_list_body be) count ctx) =
     ctx\<lparr>client := (client ctx)\<lparr>calls := calls (client ctx) @
       [\<lparr>call_verb = GET,
         call_url = ''/v3/entity/dataset?systemMetadata=false&includeSoftDelete=false&skipCache=false&aspects=datasetKey&count=''
             @ str_int count @ ''&sortCriteria=urn&sortOrder=ASCENDING'',
         call_json = None, call_params = None, call_headers = None\<rparr>]\<rparr>\<rparr>"
  unfolding body_list_call by (rule make_api_request_get_state)

lemma list_state:
  "truthy (access_token ctx) \<Longrightarrow>
   snd (call (Datahub_dataset_list be) count ctx) = snd (call (Datahub_dataset_list_body be) count ctx)"
  by (simp add: Datahub_dataset_list_def requires_auth_some handle_api_errors_state)

text \<open>
  C6. For every integer \<open>count\<close>, the function \<open>Datahub_dataset_list\<close> makes exactly one
  call on the client, as written and, once the auth gate has let it through, as
  decorated: a GET of \<open>/v3/entity/dataset\<close> whose query string carries
  \<open>count=<count>\<close>, \<open>sortCriteria=urn\<close>, \<open>sortOrder=ASCENDING\<close>,
  \<open>includeSoftDelete=false\<close> and \<open>skipCache=false\<close>: the cache is not skipped.
\<close>

theorem dataset_list_request:
  "calls (client (snd (call (Datahub_dataset_list_body be) count ctx))) =
           calls (client ctx) @
           [\<lparr>call_verb = GET,
             call_url = ''/v3/entity/dataset?systemMetadata=false&includeSoftDelete=false&skipCache=false&aspects=datasetKey&count=''
               @ str_int count @ ''&sortCriteria=urn&sortOrder=ASCENDING'',
             call_json = None, call_params = None, call_headers = None\<rparr>]
       \<and> (truthy (access_token ctx) \<longrightarrow>
            calls (client (snd (call (Datahub_dataset_list be) count ctx))) =
              calls (client ctx) @
           [\<lparr>call_verb = GET,
             call_url = ''/v3/entity/dataset?systemMetadata=false&includeSoftDelete=false&skipCache=false&aspects=datasetKey&count=''
               @ str_int count @ ''&sortCriteria=urn&sortOrder=ASCENDING'',
             call_json = None, call_params = None, call_headers = None\<rparr>])
       \<and> url_path (''/v3/entity/dataset?systemMetadata=false&includeSoftDelete=false&skipCache=false&aspects=datasetKey&count=''
               @ str_int count @ ''&sortCriteria=urn&sortOrder=ASCENDING'') = ''/v3/entity/dataset''
       \<and> query_params (''/v3/entity/dataset?systemMetadata=false&includeSoftDelete=false&skipCache=false&aspects=datasetKey&count=''
               @ str_int count @ ''&sortCriteria=urn&sortOrder=ASCENDING'') =
           [(''systemMetadata'', ''false''), (''includeSoftDelete'', ''false''),
            (''skipCache'', ''false''), (''aspects'', ''datasetKey''),
            (''count'', str_int count), (''sortCriteria'', ''urn''),
            (''sortOrder'', ''ASCENDING'')]"
proof -
  have a: "calls (client (snd (call (Datahub_dataset_list_body be) count ctx))) =
           calls (client ctx) @
           [\<lparr>call_verb = GET,
             call_url = ''/v3/entity/dataset?systemMetadata=false&includeSoftDelete=false&skipCache=false&aspects=datasetKey&count=''
               @ str_int count @ ''&sortCriteria=urn&sortOrder=ASCENDING'',
             call_json = None, call_params = None, call_headers = None\<rparr>]"
    unfolding list_body_state by simp
  have b: "truthy (access_token ctx) \<longrightarrow>
            calls (client (snd (call (Datahub_dataset_list be) count ctx))) =
              calls (client ctx) @
           [\<lparr>call_verb = GET,
             call_url = ''/v3/entity/dataset?systemMetadata=false&includeSoftDelete=false&skipCache=false&aspects=datasetKey&count=''
               @ str_int count @ ''&sortCriteria=urn&sortOrder=ASCENDING'',
             call_json = None, call_params = None, call_headers = None\<rparr>]"
    using a by (simp add: list_state)
  show ?thesis
    using a b url_path_list [of count] query_params_list [of count] by blast
qed

lemma truthy_ctx_with_token: "truthy (access_token ctx_with_token)"
  by (simp add: ctx_with_token_def truthy_def)

lemma calls_ctx_with_token: "calls (client ctx_with_token) = []"
  by (simp add: ctx_with_token_def sample_client_def)

lemma query_params_5:
  "query_params ''/v3/entity/dataset?systemMetadata=false&includeSoftDelete=false&skipCache=false&aspects=datasetKey&count=5&sortCriteria=urn&sortOrder=ASCENDING'' =
     [(''systemMetadata'', ''false''), (''includeSoftDelete'', ''false''),
      (''skipCache'', ''false''), (''aspects'', ''datasetKey''),
      (''count'', ''5''), (''sortCriteria'', ''urn''), (''sortOrder'', ''ASCENDING'')]"
  using query_params_list [of 5] unfolding list_url_5 by (simp add: str_int_small)

theorem dataset_list_request_witness:
  "truthy (access_token ctx_with_token)
   \<and> calls (client (snd (call (Datahub_dataset_list (backend_const 200 ''[]'' (Inr (JArr [])))) 5 ctx_with_token))) =
       [\<lparr>call_verb = GET,
         call_url = ''/v3/entity/dataset?systemMetadata=false&includeSoftDelete=false&skipCache=false&aspects=datasetKey&count=5&sortCriteria=urn&sortOrder=ASCENDING'',
         call_json = None, call_params = None, call_headers = None\<rparr>]
   \<and> map_of (query_params ''/v3/entity/dataset?systemMetadata=false&includeSoftDelete=false&skipCache=false&aspects=datasetKey&count=5&sortCriteria=urn&sortOrder=ASCENDING'') ''count'' = Some ''5''"
proof -
  note t = truthy_ctx_with_token
  from t dataset_list_request [of "backend_const 200 ''[]'' (Inr (JArr []))" 5 ctx_with_token]
  have a: "calls (client (snd (call (Datahub_dataset_list (backend_const 200 ''[]'' (Inr (JArr [])))) 5 ctx_with_token))) =
       [\<lparr>call_verb = GET,
         call_url = ''/v3/entity/dataset?systemMetadata=false&includeSoftDelete=false&skipCache=false&aspects=datasetKey&count=5&sortCriteria=urn&sortOrder=ASCENDING'',
         call_json = None, call_params = None, call_headers = None\<rparr>]"
    and b: "query_params (''/v3/entity/dataset?systemMetadata=false&includeSoftDelete=false&skipCache=false&aspects=datasetKey&count=5&sortCriteria=urn&sortOrder=ASCENDING'') =
           [(''systemMetadata'', ''false''), (''includeSoftDelete'', ''false''),
            (''skipCache'', ''false''), (''aspects'', ''datasetKey''),
            (''count'', ''5''), (''sortCriteria'', ''urn''),
            (''sortOrder'', ''ASCENDING'')]"
    unfolding list_url_5 calls_ctx_with_token by (simp_all add: str_int_small)
  have c: "map_of (query_params ''/v3/entity/dataset?systemMetadata=false&includeSoftDelete=false&skipCache=false&aspects=datasetKey&count=5&sortCriteria=urn&sortOrder=ASCENDING'') ''count'' = Some ''5''"
    unfolding b by simp
  from t a c show ?thesis by blast
qed

text \<open>
  Listing 5 datasets with a token in the context makes one call, and that call is not
  the request the specification describes: its query string says \<open>skipCache=false\<close>
  where skipping the cache would need \<open>skipCache=true\<close>.
\<close>

theorem dataset_list_skip_cache_counterexample:
  "calls (client (snd (call (Datahub_dataset_list (backend_const 200 ''[]'' (Inr (JArr [])))) 5 ctx_with_token))) =
       [\<lparr>call_verb = GET,
         call_url = ''/v3/entity/dataset?systemMetadata=false&includeSoftDelete=false&skipCache=false&aspects=datasetKey&count=5&sortCriteria=urn&sortOrder=ASCENDING'',
         call_json = None, call_params = None, call_headers = None\<rparr>]
   \<and> \<not> list_request_as_specified 5
       \<lparr>call_verb = GET,
         call_url = ''/v3/entity/dataset?systemMetadata=false&includeSoftDelete=false&skipCache=false&aspects=datasetKey&count=5&sortCriteria=urn&sortOrder=ASCENDING'',
         call_json = None, call_params = None, call_headers = None\<rparr>"
proof -
  have a: "calls (client (snd (call (Datahub_dataset_list (backend_const 200 ''[]'' (Inr (JArr [])))) 5 ctx_with_token))) =
       [\<lparr>call_verb = GET,
         call_url = ''/v3/entity/dataset?systemMetadata=false&includeSoftDelete=false&skipCache=false&aspects=datasetKey&count=5&sortCriteria=urn&sortOrder=ASCENDING'',
         call_json = None, call_params = None, call_headers = None\<rparr>]"
    unfolding list_state [OF truthy_ctx_with_token] list_body_state list_url_5
    by (simp add: calls_ctx_with_token)
  have b: "map_of (query_params ''/v3/entity/dataset?systemMetadata=false&includeSoftDelete=false&skipCache=false&aspects=datasetKey&count=5&sortCriteria=urn&sortOrder=ASCENDING'') ''skipCache'' = Some ''false''"
    unfolding query_params_5 by simp
  have c: "\<not> list_request_as_specified 5
       \<lparr>call_verb = GET,
         call_url = ''/v3/entity/dataset?systemMetadata=false&includeSoftDelete=false&skipCache=false&aspects=datasetKey&count=5&sortCriteria=urn&sortOrder=ASCENDING'',
         call_json = None, call_params = None, call_headers = None\<rparr>"
    using b unfolding list_request_as_specified_def by simp
  from a c show ?thesis by blast
qed

subsection \<open>Startup and shutdown\<close>



lemma startup_without_token:
  assumes "\<not> truthy (load_stored_token tf)"
  shows "Datahub_lifespan_startup url tf be =
     (Inr (),
      \<lparr>client = \<lparr>client_base_url = url, timeout = 30, headers = [],
                  is_closed = False, calls = []\<rparr>,
       base_url = url, access_token = None, csrf_token = None\<rparr>)"
  using assms by (simp add: Datahub_lifespan_startup_def Let_def)







lemma strip_blank: "\<forall>c\<in>set s. isspace c \<Longrightarrow> strip s = []"
proof -
  assume "\<forall>c\<in>set s. isspace c"
  then have d: "dropWhile isspace s = []" by (induction s) simp_all
  show ?thesis unfolding strip_def d by simp
qed

text \<open>
  C9. When the token file exists and holds only whitespace (or nothing),
  \<open>load_stored_token\<close> returns the empty string and startup yields the context as
  created: no access token, no \<open>Authorization\<close> header, no call made on the client.
\<close>

theorem blank_token_file:
  assumes "\<forall>c\<in>set s. isspace c"
  shows "load_stored_token (Contents s) = Some []
       \<and> Datahub_lifespan_startup url (Contents s) be =
           (Inr (),
            \<lparr>client = \<lparr>client_base_url = url, timeout = 30, headers = [],
                        is_closed = False, calls = []\<rparr>,
             base_url = url, access_token = None, csrf_token = None\<rparr>)"
proof -
  have l: "load_stored_token (Contents s) = Some []"
    using strip_blank [OF assms] by (simp add: load_stored_token_def)
  then have "\<not> truthy (load_stored_token (Contents s))" by (simp add: truthy_def)
  from startup_without_token [OF this] l show ?thesis by simp
qed

theorem blank_token_file_witness:
  "isspace (CHR '' '') \<and> isspace (CHR 0x0A)
   \<and> load_stored_token (Contents [CHR '' '', CHR 0x0A]) = Some []
   \<and> Datahub_lifespan_startup ''http://localhost:8088'' (Contents [CHR '' '', CHR 0x0A]) backend_down =
           (Inr (),
            \<lparr>client = \<lparr>client_base_url = ''http://localhost:8088'', timeout = 30, headers = [],
                        is_closed = False, calls = []\<rparr>,
             base_url = ''http://localhost:8088'', access_token = None, csrf_token = None\<rparr>)"
proof -
  have b: "\<forall>c\<in>set [CHR '' '', CHR 0x0A]. isspace c" by (simp add: isspace_def)
  from blank_token_file [OF b, of "''http://localhost:8088''" backend_down] b
  show ?thesis by simp
qed



end
